theory Spec2Isabelle
  imports Complex_Main
begin

section \<open>The BackgroundImage component of react-fabric\<close>

text \<open>
  The component \<^verbatim>\<open>BackgroundImage\<close>
  (\<^verbatim>\<open>packages/react/src/components/BackgroundImage/index.tsx\<close>) binds a \<^verbatim>\<open>src\<close>
  prop to the background image of a fabric canvas kept in a shared store. It is embedded
  here as functions on an explicit world: the store, the component's
  \<^verbatim>\<open>backgroundImageRef\<close>, the loads in flight and the sequence of calls the
  component makes on its collaborators.

  JavaScript numbers are idealised as reals: rounding, \<^verbatim>\<open>NaN\<close> and the infinities
  are not represented, so a division by a zero image dimension has no meaning here and
  the statements about scale factors ask for positive dimensions.
\<close>

subsection \<open>Objects of the drawing library and of the store\<close>

text \<open>Values of the extra visual properties (\<^verbatim>\<open>...options\<close>).\<close>

datatype jsval = JNum real | JStr string | JBool bool | JUndefined

text \<open>
  A \<^verbatim>\<open>FabricImage\<close>: the URL it was decoded from and the geometry that
  \<^verbatim>\<open>updateViewport\<close> reads. The calls \<^verbatim>\<open>set\<close> and \<^verbatim>\<open>rotate\<close> that the
  component makes on an image are recorded as effects; what the drawing library does to
  the geometry in response is its own business and is not represented.
\<close>

record fabric_image =
  img_src :: string
  img_width :: real
  img_height :: real
  img_left :: real
  img_top :: real
  img_scaleX :: real
  img_scaleY :: real

text \<open>
  The canvas: its size, the \<^verbatim>\<open>backgroundImage\<close> slot, the collection of scene
  objects that \<^verbatim>\<open>remove\<close> works on, the viewport transform, whether
  \<^verbatim>\<open>getElement()\<close> yields an element, and the two smoothing fields of its 2D
  context.
\<close>

record fabric_canvas =
  canvas_width :: real
  canvas_height :: real
  backgroundImage :: "fabric_image option"
  objects :: "fabric_image list"
  viewportTransform :: "real list option"
  element :: bool
  imageSmoothingEnabled :: bool
  imageSmoothingQuality :: string

text \<open>The fields of \<^verbatim>\<open>ReactFabricState\<close> that the component reads or writes.\<close>

record store_state =
  canvas :: "fabric_canvas option"
  manualZoom :: "real option"
  defaultCentered :: bool
  fitZoom :: "real option"
  zoom :: "real option"
  loading :: bool
  domNode :: bool

text \<open>
  The argument of \<^verbatim>\<open>updateViewport\<close>, and the component's props, which extend it
  (\<^verbatim>\<open>onLoad\<close> records whether the callback was passed; \<^verbatim>\<open>onScaling\<close> is never
  used by the component).
\<close>

record params =
  scaleToFit :: "bool option"
  scaleToCover :: "bool option"

record props = params +
  src :: string
  onLoad :: bool
  options :: "(string \<times> jsval) list"

text \<open>The calls the component makes on the canvas, the images, the store and its caller.\<close>

datatype effect =
    SetViewportTransform "real list"
  | RequestRenderAll
  | RenderAll
  | Remove fabric_image
  | SetState real real real
  | SetLoading bool
  | FromURL string
  | ImageSetObject fabric_image "(string \<times> jsval) list"
  | ImageSet fabric_image string jsval
  | ImageRotate fabric_image jsval
  | OnLoad fabric_image
  | DatasetSrc string

text \<open>
  A load in flight holds what the closure of its \<^verbatim>\<open>.then\<close> handler captured: the
  props of the render that started it and the \<^verbatim>\<open>domNode\<close> read from the store then.
\<close>

record load =
  ld_props :: props
  ld_domNode :: bool

datatype phase = Fresh | Mounted props | Unmounted

record world =
  store :: store_state
  backgroundImageRef :: "fabric_image option"
  phase :: phase
  cleanup :: bool
  loads :: "load list"
  settled :: "nat list"
  trace :: "effect list"

text \<open>The effects a step adds to the trace.\<close>

definition emitted :: "(world \<Rightarrow> world) \<Rightarrow> world \<Rightarrow> effect list" where
  "emitted f w = drop (length (trace w)) (trace (f w))"

subsection \<open>Library calls\<close>

text \<open>A flag of type \<^verbatim>\<open>boolean | undefined\<close> used as a condition.\<close>

definition truthy :: "bool option \<Rightarrow> bool" where
  "truthy b = (b = Some True)"

text \<open>
  Modelled from the spec: \<^verbatim>\<open>util.findScaleToFit\<close> belongs to the drawing library,
  whose source is not part of the repository. By section 4.1 of the spec it is the largest
  uniform scale at which the image fits the canvas, the minimum of the two ratios of
  canvas size to image size.
\<close>

definition findScaleToFit :: "fabric_image \<Rightarrow> fabric_canvas \<Rightarrow> real" where
  "findScaleToFit source destination =
     min (canvas_width destination / img_width source)
         (canvas_height destination / img_height source)"

text \<open>
  Modelled from the spec: \<^verbatim>\<open>util.findScaleToCover\<close>, of the same library. By section
  4.1 of the spec it is the smallest uniform scale at which the image covers the canvas,
  the maximum of the two ratios.
\<close>

definition findScaleToCover :: "fabric_image \<Rightarrow> fabric_canvas \<Rightarrow> real" where
  "findScaleToCover source destination =
     max (canvas_width destination / img_width source)
         (canvas_height destination / img_height source)"

text \<open>\<^verbatim>\<open>canvas.setViewportTransform(vpt)\<close> stores the transform on the canvas.\<close>

definition setViewportTransform :: "real list \<Rightarrow> fabric_canvas \<Rightarrow> fabric_canvas" where
  "setViewportTransform vpt c = c\<lparr>viewportTransform := Some vpt\<rparr>"

text \<open>
  \<^verbatim>\<open>canvas.remove(object)\<close> takes the object out of the canvas's collection of scene
  objects.
\<close>

definition remove :: "fabric_image \<Rightarrow> fabric_canvas \<Rightarrow> fabric_canvas" where
  "remove object c = c\<lparr>objects := remove1 object (objects c)\<rparr>"

text \<open>
  Modelled from the spec: the store action \<^verbatim>\<open>setLoading\<close> is defined with the store,
  outside this file; by section 4.2 it sets the shared loading flag.
\<close>

definition setLoading :: "bool \<Rightarrow> world \<Rightarrow> world" where
  "setLoading b w =
     w\<lparr>store := (store w)\<lparr>loading := b\<rparr>, trace := trace w @ [SetLoading b]\<rparr>"

subsection \<open>updateViewport\<close>

text \<open>
  Lines 56 to 117. Nothing happens unless the component holds an image and the store
  holds a canvas. Otherwise the scale is computed and applied without translation, the
  translation is computed from \<^verbatim>\<open>canvas.backgroundImage\<close> when centring is on, the
  final transform is applied, a render is requested and the three zooms are written to
  the store.
\<close>

definition updateViewport :: "'a params_scheme \<Rightarrow> world \<Rightarrow> world" where
  "updateViewport ps w =
     (case backgroundImageRef w of
        None \<Rightarrow> w
      | Some img \<Rightarrow>
         (case canvas (store w) of
            None \<Rightarrow> w
          | Some c \<Rightarrow>
             (let manualZoom' = (case manualZoom (store w) of None \<Rightarrow> 1 | Some m \<Rightarrow> m);
                  fitZoom' =
                    (if truthy (scaleToFit ps) then findScaleToFit img c
                     else if truthy (scaleToCover ps) then findScaleToCover img c
                     else 1);
                  combinedZoom = fitZoom' * manualZoom';
                  c1 = setViewportTransform [combinedZoom, 0, 0, combinedZoom, 0, 0] c;
                  delta =
                    (if defaultCentered (store w) then
                       (case backgroundImage c1 of
                          None \<Rightarrow> (0, 0)
                        | Some bg \<Rightarrow>
                           (canvas_width c1 / 2
                              - (img_left bg + (img_width bg * img_scaleX bg) / 2) * combinedZoom,
                            canvas_height c1 / 2
                              - (img_top bg + (img_height bg * img_scaleY bg) / 2) * combinedZoom))
                     else (0, 0));
                  finalTransform = [combinedZoom, 0, 0, combinedZoom, fst delta, snd delta];
                  c2 = setViewportTransform finalTransform c1
              in w\<lparr>store := (store w)\<lparr>canvas := Some c2,
                                        fitZoom := Some fitZoom',
                                        manualZoom := Some manualZoom',
                                        zoom := Some combinedZoom\<rparr>,
                    trace := trace w @
                      [SetViewportTransform [combinedZoom, 0, 0, combinedZoom, 0, 0],
                       SetViewportTransform finalTransform,
                       RequestRenderAll,
                       SetState fitZoom' manualZoom' combinedZoom]\<rparr>)))"

subsection \<open>The load effect\<close>

text \<open>
  \<^verbatim>\<open>FabricImage.fromURL\<close> resolves to a fresh image of the decoded bitmap's natural
  size, at the library's default position and scale.
\<close>

definition fromURL :: "string \<Rightarrow> real \<times> real \<Rightarrow> fabric_image" where
  "fromURL url sz =
     \<lparr>img_src = url, img_width = fst sz, img_height = snd sz,
      img_left = 0, img_top = 0, img_scaleX = 1, img_scaleY = 1\<rparr>"

text \<open>The object literal \<^verbatim>\<open>{...options, objectCaching: false}\<close>.\<close>

fun assign :: "string \<Rightarrow> jsval \<Rightarrow> (string \<times> jsval) list \<Rightarrow> (string \<times> jsval) list" where
  "assign k v [] = [(k, v)]"
| "assign k v ((k', v') # kvs) =
     (if k' = k then (k, v) # kvs else (k', v') # assign k v kvs)"

text \<open>
  Lines 127 to 131: the body of the effect on \<^verbatim>\<open>src\<close>, up to the call of
  \<^verbatim>\<open>fromURL\<close>. The second component says whether the run returned a teardown.
\<close>

definition srcEffect :: "props \<Rightarrow> world \<Rightarrow> world \<times> bool" where
  "srcEffect p w =
     (if src p = [] then (w, False)
      else
        (let ld = \<lparr>ld_props = p, ld_domNode = domNode (store w)\<rparr>;
             w1 = setLoading True w
         in (w1\<lparr>loads := loads w1 @ [ld], trace := trace w1 @ [FromURL (src p)]\<rparr>, True)))"

text \<open>
  Lines 132 to 155: the \<^verbatim>\<open>.then\<close> handler. The canvas is read from the store when
  the handler runs; \<^verbatim>\<open>options\<close>, the scale flags, \<^verbatim>\<open>onLoad\<close>, \<^verbatim>\<open>src\<close> and
  \<^verbatim>\<open>domNode\<close> are those of the closure. After \<^verbatim>\<open>updateViewport\<close> the canvas is
  read back from the store, where the model keeps the one canvas object. The call of
  \<^verbatim>\<open>set\<close> is recorded as an effect; the geometry that \<^verbatim>\<open>updateViewport\<close> then
  reads is that of the image as decoded.
\<close>

definition onResolved :: "load \<Rightarrow> fabric_image \<Rightarrow> world \<Rightarrow> world" where
  "onResolved ld imageSource w =
     (case canvas (store w) of
        None \<Rightarrow> w
      | Some c \<Rightarrow>
         if canvas_width c \<noteq> 0 \<and> canvas_height c \<noteq> 0 then
           (let p = ld_props ld;
                c' = c\<lparr>imageSmoothingEnabled := True,
                       imageSmoothingQuality := ''high'',
                       backgroundImage := Some imageSource\<rparr>;
                w1 = w\<lparr>store := (store w)\<lparr>canvas := Some c'\<rparr>,
                       backgroundImageRef := Some imageSource,
                       trace := trace w @
                         [ImageSetObject imageSource
                            (assign ''objectCaching'' (JBool False) (options p))]\<rparr>;
                w2 = updateViewport p w1
            in (case canvas (store w2) of
                  None \<Rightarrow> w2
                | Some c2 \<Rightarrow>
                   (case viewportTransform c2 of
                      None \<Rightarrow> w2
                    | Some viewport \<Rightarrow>
                       w2\<lparr>trace := trace w2 @
                            (if onLoad p then [OnLoad imageSource] else []) @
                            (if ld_domNode ld then [DatasetSrc (src p)] else [])\<rparr>)))
         else w)"

text \<open>
  A load settles: with the natural size of the decoded bitmap the \<^verbatim>\<open>.then\<close> handler
  runs, with \<open>None\<close> (the decode failed) it does not; the \<^verbatim>\<open>.finally\<close> handler of
  lines 156 to 158 runs in both cases.
\<close>

definition settle :: "load \<Rightarrow> (real \<times> real) option \<Rightarrow> world \<Rightarrow> world" where
  "settle ld r w =
     setLoading False
       (case r of
          None \<Rightarrow> w
        | Some sz \<Rightarrow> onResolved ld (fromURL (src (ld_props ld)) sz) w)"

text \<open>Lines 160 to 170: the teardown returned by the effect on \<^verbatim>\<open>src\<close>.\<close>

definition srcCleanup :: "world \<Rightarrow> world" where
  "srcCleanup w =
     (let w1 =
        (case backgroundImageRef w of
           None \<Rightarrow> w
         | Some img \<Rightarrow>
            (case canvas (store w) of
               None \<Rightarrow> w
             | Some c \<Rightarrow> w\<lparr>store := (store w)\<lparr>canvas := Some (remove img c)\<rparr>,
                           trace := trace w @ [Remove img]\<rparr>)
            \<lparr>backgroundImageRef := None\<rparr>)
      in (case canvas (store w1) of
            None \<Rightarrow> w1
          | Some c \<Rightarrow> if element c then w1\<lparr>trace := trace w1 @ [RenderAll]\<rparr> else w1))"

subsection \<open>Synchronising the extra properties\<close>

text \<open>Lines 178 to 184: what \<^verbatim>\<open>forEach\<close> does with one entry of \<^verbatim>\<open>options\<close>.\<close>

definition applyOption :: "fabric_image \<Rightarrow> string \<times> jsval \<Rightarrow> effect" where
  "applyOption img kv =
     (if fst kv = ''angle'' then ImageRotate img (snd kv)
      else ImageSet img (fst kv) (snd kv))"

text \<open>Lines 174 to 187: the callback passed to \<^verbatim>\<open>useDidUpdate\<close>.\<close>

definition optionsSync :: "(string \<times> jsval) list \<Rightarrow> world \<Rightarrow> world" where
  "optionsSync opts w =
     (case backgroundImageRef w of
        None \<Rightarrow> w
      | Some img \<Rightarrow>
         (let w1 = w\<lparr>trace := trace w @ map (applyOption img) opts\<rparr>
          in (case canvas (store w1) of
                None \<Rightarrow> w1
              | Some c \<Rightarrow> w1\<lparr>trace := trace w1 @ [RequestRenderAll]\<rparr>)))"

subsection \<open>The life of one component instance\<close>

text \<open>
  The first render runs the viewport effect (lines 120 to 125) and the effect on
  \<^verbatim>\<open>src\<close>, in the order of their declaration.
\<close>

definition mount :: "props \<Rightarrow> world \<Rightarrow> world" where
  "mount p w =
     (let w1 = updateViewport p (w\<lparr>phase := Mounted p\<rparr>);
          r = srcEffect p w1
      in (fst r)\<lparr>cleanup := snd r\<rparr>)"

text \<open>
  Modelled from the spec: the hook \<^verbatim>\<open>useDidUpdate\<close> is defined outside this file. By
  section 4.3 of the spec its callback runs on a render after the first in which what it
  depends on, the extra properties, differs from the previous render.
\<close>

definition useDidUpdate :: "bool \<Rightarrow> (world \<Rightarrow> world) \<Rightarrow> world \<Rightarrow> world" where
  "useDidUpdate changed callback w = (if changed then callback w else w)"

text \<open>
  A later render, before the hook: the teardown of an effect whose dependencies changed
  runs before any effect body, then the bodies run in the order of their declaration. The
  store does not change in a render, so the viewport effect runs when a scale flag changed
  and the effect on \<^verbatim>\<open>src\<close> when \<^verbatim>\<open>src\<close> changed.
\<close>

definition runEffects :: "props \<Rightarrow> props \<Rightarrow> world \<Rightarrow> world" where
  "runEffects old p w =
     (let w0 = w\<lparr>phase := Mounted p\<rparr>;
          w1 = (if src p \<noteq> src old \<and> cleanup w0
                then (srcCleanup w0)\<lparr>cleanup := False\<rparr> else w0);
          w2 = (if scaleToFit p \<noteq> scaleToFit old \<or> scaleToCover p \<noteq> scaleToCover old
                then updateViewport p w1 else w1)
      in if src p \<noteq> src old
         then (let r = srcEffect p w2 in (fst r)\<lparr>cleanup := snd r\<rparr>) else w2)"

text \<open>
  A later render as a whole: the hook of lines 174 to 187 is declared last, so its
  callback runs on what the teardown and the two effects have left.
\<close>

definition update :: "props \<Rightarrow> props \<Rightarrow> world \<Rightarrow> world" where
  "update old p w =
     useDidUpdate (options p \<noteq> options old) (optionsSync (options p)) (runEffects old p w)"

text \<open>Unmounting runs the teardown that is still registered.\<close>

definition unmount :: "world \<Rightarrow> world" where
  "unmount w =
     (if cleanup w then srcCleanup w else w)\<lparr>phase := Unmounted, cleanup := False\<rparr>"

text \<open>
  What can happen to the instance: it is rendered with some props, it is unmounted, or
  the load with a given number settles. A load settles once; an instance that was
  unmounted is not rendered again.
\<close>

datatype event = Render props | Unmount | Settle nat "(real \<times> real) option"

fun step :: "event \<Rightarrow> world \<Rightarrow> world" where
  "step (Render p) w =
     (case phase w of
        Fresh \<Rightarrow> mount p w
      | Mounted old \<Rightarrow> update old p w
      | Unmounted \<Rightarrow> w)"
| "step Unmount w =
     (case phase w of
        Mounted old \<Rightarrow> unmount w
      | _ \<Rightarrow> w)"
| "step (Settle i r) w =
     (if i < length (loads w) \<and> i \<notin> set (settled w)
      then settle (loads w ! i) r (w\<lparr>settled := i # settled w\<rparr>)
      else w)"

fun run :: "event list \<Rightarrow> world \<Rightarrow> world" where
  "run [] w = w"
| "run (e # es) w = run es (step e w)"

text \<open>The loads that were started and have not settled.\<close>

definition inFlight :: "world \<Rightarrow> nat list" where
  "inFlight w = filter (\<lambda>i. i \<notin> set (settled w)) [0 ..< length (loads w)]"

subsection \<open>Observations\<close>

text \<open>
  The guard of the \<^verbatim>\<open>.then\<close> handler: a canvas is in the store and neither its width
  nor its height is zero.
\<close>

definition canvasReady :: "world \<Rightarrow> bool" where
  "canvasReady w =
     (case canvas (store w) of
        None \<Rightarrow> False
      | Some c \<Rightarrow> canvas_width c \<noteq> 0 \<and> canvas_height c \<noteq> 0)"

text \<open>The writes to the store (section 6 of the spec) and the calls of \<^verbatim>\<open>onLoad\<close>.\<close>

fun isStoreWrite :: "effect \<Rightarrow> bool" where
  "isStoreWrite (SetState f m z) = True"
| "isStoreWrite (SetLoading b) = True"
| "isStoreWrite e = False"

fun isOnLoad :: "effect \<Rightarrow> bool" where
  "isOnLoad (OnLoad img) = True"
| "isOnLoad e = False"

text \<open>The image that the canvas shows as its background, if any.\<close>

definition canvasBackground :: "world \<Rightarrow> fabric_image option" where
  "canvasBackground w =
     (case canvas (store w) of None \<Rightarrow> None | Some c \<Rightarrow> backgroundImage c)"

text \<open>The final transform of the canvas, if any.\<close>

definition canvasTransform :: "world \<Rightarrow> real list option" where
  "canvasTransform w =
     (case canvas (store w) of None \<Rightarrow> None | Some c \<Rightarrow> viewportTransform c)"

subsection \<open>Example worlds\<close>

text \<open>
  An 800 by 600 canvas in the store and a component that has not rendered yet; two images
  of 400 by 200 and of 100 by 100 pixels; props for two sources.
\<close>

definition canvas0 :: fabric_canvas where
  "canvas0 =
     \<lparr>canvas_width = 800, canvas_height = 600, backgroundImage = None, objects = [],
      viewportTransform = None, element = True, imageSmoothingEnabled = False,
      imageSmoothingQuality = ''low''\<rparr>"

definition store0 :: store_state where
  "store0 =
     \<lparr>canvas = Some canvas0, manualZoom = None, defaultCentered = False,
      fitZoom = None, zoom = None, loading = False, domNode = False\<rparr>"

definition world0 :: world where
  "world0 =
     \<lparr>store = store0, backgroundImageRef = None, phase = Fresh, cleanup = False,
      loads = [], settled = [], trace = []\<rparr>"

definition fit :: params where
  "fit = \<lparr>scaleToFit = Some True, scaleToCover = None\<rparr>"

definition cover :: params where
  "cover = \<lparr>scaleToFit = None, scaleToCover = Some True\<rparr>"

definition noScale :: params where
  "noScale = \<lparr>scaleToFit = None, scaleToCover = None\<rparr>"

definition imageA :: fabric_image where
  "imageA = fromURL ''a.png'' (400, 200)"

definition propsA :: props where
  "propsA = \<lparr>scaleToFit = Some True, scaleToCover = None,
             src = ''a.png'', onLoad = True, options = []\<rparr>"

definition propsB :: props where
  "propsB = \<lparr>scaleToFit = Some True, scaleToCover = None,
             src = ''b.png'', onLoad = True, options = []\<rparr>"

text \<open>The component holds \<open>imageA\<close>, which is also the background of the canvas.\<close>

definition worldA :: world where
  "worldA =
     world0\<lparr>store := store0\<lparr>canvas := Some (canvas0\<lparr>backgroundImage := Some imageA\<rparr>)\<rparr>,
            backgroundImageRef := Some imageA\<rparr>"

definition loadA :: load where
  "loadA = \<lparr>ld_props = propsA, ld_domNode = False\<rparr>"

text \<open>The same worlds with centring switched on, and with no canvas in the store.\<close>

definition worldCentred :: world where
  "worldCentred = worldA\<lparr>store := (store worldA)\<lparr>defaultCentered := True\<rparr>\<rparr>"

definition imageB :: fabric_image where
  "imageB = fromURL ''b.png'' (100, 100)"

text \<open>
  The source changed from \<open>a.png\<close> to \<open>b.png\<close> while the first load was in
  flight, and the first load has then resolved: its image is attached while the load of
  \<open>b.png\<close> is still in flight.
\<close>

definition worldStale :: world where
  "worldStale = run [Render propsA, Render propsB, Settle 0 (Some (400, 200))] world0"

text \<open>The component has rendered with \<open>a.png\<close> and that load has resolved.\<close>

definition worldLoaded :: world where
  "worldLoaded = run [Render propsA, Settle 0 (Some (400, 200))] world0"

definition worldNoCanvas :: world where
  "worldNoCanvas = world0\<lparr>store := store0\<lparr>canvas := None\<rparr>\<rparr>"

text \<open>Two extra properties, one of them the rotation angle.\<close>

definition someOptions :: "(string \<times> jsval) list" where
  "someOptions = [(''opacity'', JNum (1 / 2)), (''angle'', JNum 45)]"

text \<open>
  Props with these two properties and props with the angle alone; a component that has
  rendered with the former and holds \<open>imageA\<close>; and a component that holds
  \<open>imageA\<close> while the store has no canvas any more.
\<close>

definition propsOptions :: props where
  "propsOptions = propsA\<lparr>options := someOptions\<rparr>"

definition propsAngle :: props where
  "propsAngle = propsA\<lparr>options := [(''angle'', JNum 45)]\<rparr>"

definition worldOptions :: world where
  "worldOptions = worldA\<lparr>phase := Mounted propsOptions\<rparr>"

definition worldDetached :: world where
  "worldDetached = worldA\<lparr>store := (store worldA)\<lparr>canvas := None\<rparr>\<rparr>"

section \<open>Properties of updateViewport\<close>

lemma updateViewport_no_image: "backgroundImageRef w = None \<Longrightarrow> updateViewport ps w = w"
  by (simp add: updateViewport_def)

lemma updateViewport_trace_prefix: "\<exists>xs. trace (updateViewport ps w) = trace w @ xs"
  by (simp add: updateViewport_def Let_def split: option.splits)

text \<open>
  Claim C1. With an image held by the component and a canvas in the store, both of
  positive size, \<^verbatim>\<open>updateViewport\<close> writes as \<open>fitZoom\<close> the minimum of the two ratios
  of canvas size to image size when \<^verbatim>\<open>scaleToFit\<close> is set, their maximum when only
  \<^verbatim>\<open>scaleToCover\<close> is set, and 1 when neither is.
\<close>

theorem updateViewport_fitZoom:
  assumes "backgroundImageRef w = Some img" and "canvas (store w) = Some c"
    and "0 < canvas_width c" and "0 < canvas_height c"
    and "0 < img_width img" and "0 < img_height img"
  shows "fitZoom (store (updateViewport ps w)) =
           Some (if scaleToFit ps = Some True
                 then min (canvas_width c / img_width img) (canvas_height c / img_height img)
                 else if scaleToCover ps = Some True
                 then max (canvas_width c / img_width img) (canvas_height c / img_height img)
                 else 1)"
  using assms(1,2)
  by (simp add: updateViewport_def Let_def truthy_def findScaleToFit_def findScaleToCover_def)

text \<open>The scenario of the spec: a canvas of 800 by 600 and an image of 400 by 200.\<close>

theorem updateViewport_fitZoom_witness:
  "fitZoom (store (updateViewport fit worldA)) = Some 2 \<and>
   fitZoom (store (updateViewport cover worldA)) = Some 3 \<and>
   fitZoom (store (updateViewport noScale worldA)) = Some 1"
  using updateViewport_fitZoom [of worldA imageA "canvas0\<lparr>backgroundImage := Some imageA\<rparr>" fit]
    updateViewport_fitZoom [of worldA imageA "canvas0\<lparr>backgroundImage := Some imageA\<rparr>" cover]
    updateViewport_fitZoom [of worldA imageA "canvas0\<lparr>backgroundImage := Some imageA\<rparr>" noScale]
  by (simp add: worldA_def world0_def store0_def canvas0_def imageA_def fromURL_def
      fit_def cover_def noScale_def)

text \<open>
  Claim C2. With an image held by the component and a canvas in the store, let \<open>z\<close> be
  the zoom that \<^verbatim>\<open>updateViewport\<close> writes. If \<^verbatim>\<open>defaultCentered\<close> is true and the
  canvas has a background image, the final transform is \<open>[z, 0, 0, z, dx, dy]\<close> with
  \<open>dx\<close> the half width of the canvas minus \<open>(left + width * scaleX / 2) * z\<close> and
  \<open>dy\<close> likewise; if \<^verbatim>\<open>defaultCentered\<close> is false the translation is zero.
\<close>

theorem updateViewport_translation:
  assumes "backgroundImageRef w = Some img" and "canvas (store w) = Some c"
    and "zoom (store (updateViewport ps w)) = Some z"
  shows "(defaultCentered (store w) \<and> backgroundImage c = Some bg \<longrightarrow>
            canvasTransform (updateViewport ps w) =
              Some [z, 0, 0, z,
                    canvas_width c / 2 - (img_left bg + img_width bg * img_scaleX bg / 2) * z,
                    canvas_height c / 2 - (img_top bg + img_height bg * img_scaleY bg / 2) * z]) \<and>
         (\<not> defaultCentered (store w) \<longrightarrow>
            canvasTransform (updateViewport ps w) = Some [z, 0, 0, z, 0, 0])"
  using assms
  by (auto simp add: updateViewport_def Let_def canvasTransform_def setViewportTransform_def)

theorem updateViewport_translation_witness:
  "canvasTransform (updateViewport fit worldCentred) = Some [2, 0, 0, 2, 0, 100] \<and>
   canvasTransform (updateViewport fit worldA) = Some [2, 0, 0, 2, 0, 0]"
  using updateViewport_translation
      [of worldCentred imageA "canvas0\<lparr>backgroundImage := Some imageA\<rparr>" fit 2 imageA]
    updateViewport_translation
      [of worldA imageA "canvas0\<lparr>backgroundImage := Some imageA\<rparr>" fit 2 imageA]
  by (simp add: worldCentred_def worldA_def world0_def store0_def canvas0_def imageA_def
      fromURL_def fit_def updateViewport_def Let_def truthy_def findScaleToFit_def
      canvasTransform_def setViewportTransform_def)

text \<open>
  Claim C3, as the code has it. If the component holds an image and the store holds a
  canvas, \<^verbatim>\<open>updateViewport\<close> makes one write to the store, of \<open>fitZoom\<close>,
  \<open>manualZoom\<close> and \<open>zoom = fitZoom * manualZoom\<close>; if the component holds no image
  it changes nothing, whether or not a canvas exists.
\<close>

theorem updateViewport_store_write:
  "(backgroundImageRef w \<noteq> None \<and> canvas (store w) \<noteq> None \<longrightarrow>
      (\<exists>f m. filter isStoreWrite (emitted (updateViewport ps) w) = [SetState f m (f * m)] \<and>
             fitZoom (store (updateViewport ps w)) = Some f \<and>
             manualZoom (store (updateViewport ps w)) = Some m \<and>
             zoom (store (updateViewport ps w)) = Some (f * m))) \<and>
   (backgroundImageRef w = None \<longrightarrow> updateViewport ps w = w)"
  by (auto simp add: updateViewport_def Let_def emitted_def)

theorem updateViewport_store_write_witness:
  "(\<exists>f m. filter isStoreWrite (emitted (updateViewport fit) worldA) = [SetState f m (f * m)] \<and>
          fitZoom (store (updateViewport fit worldA)) = Some f \<and>
          manualZoom (store (updateViewport fit worldA)) = Some m \<and>
          zoom (store (updateViewport fit worldA)) = Some (f * m)) \<and>
   updateViewport fit world0 = world0"
  using updateViewport_store_write [of worldA fit] updateViewport_store_write [of world0 fit]
  by (simp add: worldA_def world0_def)

text \<open>
  Claim C3 as stated fails: with a canvas in the store and no image held by the
  component, \<^verbatim>\<open>updateViewport\<close> returns at its guard. Nothing is written to the store
  and \<open>zoom\<close> stays undefined, where the claim has the combined zoom 1 written.
\<close>

theorem updateViewport_no_image_counterexample:
  "canvas (store world0) \<noteq> None \<and>
   backgroundImageRef world0 = None \<and>
   filter isStoreWrite (emitted (updateViewport noScale) world0) = [] \<and>
   zoom (store (updateViewport noScale world0)) = None"
  by (simp add: updateViewport_def world0_def store0_def emitted_def)

text \<open>
  Claim C9. Whenever \<^verbatim>\<open>updateViewport\<close> writes to the store, the zoom written is the
  product of the \<open>fitZoom\<close> and the \<open>manualZoom\<close> written with it, and that
  \<open>manualZoom\<close> is the one of the store, or 1 when the store has none.
\<close>

theorem updateViewport_zoom_product:
  assumes "SetState f m z \<in> set (emitted (updateViewport ps) w)"
  shows "z = f * m \<and>
         m = (case manualZoom (store w) of None \<Rightarrow> 1 | Some x \<Rightarrow> x) \<and>
         fitZoom (store (updateViewport ps w)) = Some f \<and>
         manualZoom (store (updateViewport ps w)) = Some m \<and>
         zoom (store (updateViewport ps w)) = Some z"
  using assms
  by (auto simp add: updateViewport_def Let_def emitted_def split: option.splits)

theorem updateViewport_zoom_product_witness:
  "SetState 3 1 3 \<in> set (emitted (updateViewport cover) worldA) \<and>
   (3::real) = 3 * 1 \<and>
   manualZoom (store worldA) = None \<and>
   fitZoom (store (updateViewport cover worldA)) = Some 3 \<and>
   manualZoom (store (updateViewport cover worldA)) = Some 1 \<and>
   zoom (store (updateViewport cover worldA)) = Some 3"
proof -
  have h: "SetState 3 1 3 \<in> set (emitted (updateViewport cover) worldA)"
    by (simp add: updateViewport_def Let_def emitted_def worldA_def world0_def store0_def
        canvas0_def imageA_def fromURL_def cover_def truthy_def findScaleToCover_def)
  show ?thesis
    using h updateViewport_zoom_product [OF h]
    by (simp add: worldA_def world0_def store0_def)
qed

section \<open>Properties of the load effect\<close>

lemma onResolved_ready:
  assumes "canvasReady w"
  shows "backgroundImageRef (onResolved ld img w) = Some img"
    and "canvasBackground (onResolved ld img w) = Some img"
    and "filter isOnLoad (emitted (onResolved ld img) w) =
           (if onLoad (ld_props ld) then [OnLoad img] else [])"
  using assms
  by (auto simp add: onResolved_def canvasReady_def updateViewport_def Let_def emitted_def
      canvasBackground_def setViewportTransform_def split: option.splits)

lemma onResolved_not_ready: "\<not> canvasReady w \<Longrightarrow> onResolved ld img w = w"
  by (auto simp add: onResolved_def canvasReady_def split: option.splits)

lemma onResolved_trace_prefix: "\<exists>xs. trace (onResolved ld img w) = trace w @ xs"
  by (simp add: onResolved_def updateViewport_def Let_def setViewportTransform_def
      split: option.splits)

lemma settle_trace: "\<exists>xs. trace (settle ld r w) = trace w @ xs @ [SetLoading False]"
proof (cases r)
  case None
  then show ?thesis by (simp add: settle_def setLoading_def)
next
  case (Some sz)
  obtain xs where "trace (onResolved ld (fromURL (src (ld_props ld)) sz) w) = trace w @ xs"
    using onResolved_trace_prefix by blast
  then show ?thesis using Some by (simp add: settle_def setLoading_def)
qed

lemma settle_emitted_last: "last (emitted (settle ld r) w) = SetLoading False"
proof -
  obtain xs where "trace (settle ld r w) = trace w @ xs @ [SetLoading False]"
    using settle_trace by blast
  then show ?thesis by (simp add: emitted_def)
qed

text \<open>
  Claim C6. When a decode resolves, the image is attached exactly if the store holds a
  canvas of non-zero width and height. In that case \<^verbatim>\<open>onLoad\<close>, when the caller passed
  one, is called once, with the decoded image. Otherwise the image is dropped: the only
  effect is the clearing of the loading flag, and \<^verbatim>\<open>onLoad\<close> is not called.
\<close>

theorem settle_onLoad:
  "(canvasReady w \<longrightarrow>
      filter isOnLoad (emitted (settle ld (Some sz)) w) =
        (if onLoad (ld_props ld) then [OnLoad (fromURL (src (ld_props ld)) sz)] else []) \<and>
      backgroundImageRef (settle ld (Some sz) w) = Some (fromURL (src (ld_props ld)) sz) \<and>
      canvasBackground (settle ld (Some sz) w) = Some (fromURL (src (ld_props ld)) sz)) \<and>
   (\<not> canvasReady w \<longrightarrow>
      emitted (settle ld (Some sz)) w = [SetLoading False] \<and>
      backgroundImageRef (settle ld (Some sz) w) = backgroundImageRef w \<and>
      canvas (store (settle ld (Some sz) w)) = canvas (store w))"
proof (intro conjI impI)
  let ?img = "fromURL (src (ld_props ld)) sz"
  obtain xs where "trace (onResolved ld ?img w) = trace w @ xs"
    using onResolved_trace_prefix by blast
  then have e: "emitted (settle ld (Some sz)) w = emitted (onResolved ld ?img) w @ [SetLoading False]"
    by (simp add: emitted_def settle_def setLoading_def)
  assume r: "canvasReady w"
  show "filter isOnLoad (emitted (settle ld (Some sz)) w) =
        (if onLoad (ld_props ld) then [OnLoad ?img] else [])"
    using onResolved_ready(3) [OF r, of ld ?img] by (simp add: e)
  show "backgroundImageRef (settle ld (Some sz) w) = Some ?img"
    using onResolved_ready(1) [OF r, of ld ?img] by (simp add: settle_def setLoading_def)
  show "canvasBackground (settle ld (Some sz) w) = Some ?img"
    using onResolved_ready(2) [OF r, of ld ?img]
    by (simp add: settle_def setLoading_def canvasBackground_def)
next
  assume n: "\<not> canvasReady w"
  show "emitted (settle ld (Some sz)) w = [SetLoading False]"
    by (simp add: settle_def onResolved_not_ready [OF n] setLoading_def emitted_def)
  show "backgroundImageRef (settle ld (Some sz) w) = backgroundImageRef w"
    by (simp add: settle_def onResolved_not_ready [OF n] setLoading_def)
  show "canvas (store (settle ld (Some sz) w)) = canvas (store w)"
    by (simp add: settle_def onResolved_not_ready [OF n] setLoading_def)
qed

theorem settle_onLoad_witness:
  "canvasReady world0 \<and>
   filter isOnLoad (emitted (settle loadA (Some (400, 200))) world0) = [OnLoad imageA] \<and>
   backgroundImageRef (settle loadA (Some (400, 200)) world0) = Some imageA \<and>
   canvasBackground (settle loadA (Some (400, 200)) world0) = Some imageA \<and>
   \<not> canvasReady worldNoCanvas \<and>
   emitted (settle loadA (Some (400, 200))) worldNoCanvas = [SetLoading False] \<and>
   backgroundImageRef (settle loadA (Some (400, 200)) worldNoCanvas) = None \<and>
   canvas (store (settle loadA (Some (400, 200)) worldNoCanvas)) = None"
proof -
  have r: "canvasReady world0"
    by (simp add: canvasReady_def world0_def store0_def canvas0_def)
  have n: "\<not> canvasReady worldNoCanvas"
    by (simp add: canvasReady_def worldNoCanvas_def)
  show ?thesis
    using r n settle_onLoad [of world0 loadA "(400, 200)"]
      settle_onLoad [of worldNoCanvas loadA "(400, 200)"]
    by (simp add: loadA_def propsA_def imageA_def)
      (simp add: worldNoCanvas_def world0_def store0_def)
qed

text \<open>
  Claim C8. A run of the effect with a non-empty \<^verbatim>\<open>src\<close> sets the loading flag and
  then issues the decode request. However the load settles, the last thing done is the
  clearing of the loading flag; when the decode fails that is all that is done, and
  neither the component's image nor the canvas changes.
\<close>

theorem load_sets_and_clears_loading:
  "(src p \<noteq> [] \<longrightarrow>
      emitted (\<lambda>w. fst (srcEffect p w)) w = [SetLoading True, FromURL (src p)] \<and>
      loading (store (fst (srcEffect p w))) \<and>
      loads (fst (srcEffect p w)) = loads w @ [\<lparr>ld_props = p, ld_domNode = domNode (store w)\<rparr>]) \<and>
   last (emitted (settle ld r) w) = SetLoading False \<and>
   \<not> loading (store (settle ld r w)) \<and>
   emitted (settle ld None) w = [SetLoading False] \<and>
   backgroundImageRef (settle ld None w) = backgroundImageRef w \<and>
   canvas (store (settle ld None w)) = canvas (store w)"
  by (simp add: settle_emitted_last)
    (simp add: srcEffect_def Let_def setLoading_def emitted_def settle_def)

theorem load_sets_and_clears_loading_witness:
  "src propsA \<noteq> [] \<and>
   emitted (\<lambda>w. fst (srcEffect propsA w)) world0 = [SetLoading True, FromURL ''a.png''] \<and>
   loading (store (fst (srcEffect propsA world0))) \<and>
   loads (fst (srcEffect propsA world0)) = [loadA] \<and>
   last (emitted (settle loadA (Some (400, 200))) world0) = SetLoading False \<and>
   \<not> loading (store (settle loadA (Some (400, 200)) world0)) \<and>
   emitted (settle loadA None) world0 = [SetLoading False] \<and>
   backgroundImageRef (settle loadA None world0) = None"
  using load_sets_and_clears_loading [of propsA world0 loadA "Some (400, 200)"]
  by (simp add: propsA_def loadA_def)
    (simp add: world0_def store0_def)

text \<open>
  Claim C10. With the empty string as \<^verbatim>\<open>src\<close> the effect does nothing: the world is
  unchanged (no write of the loading flag, no decode request, no change of the canvas) and
  no teardown is returned.
\<close>

theorem srcEffect_empty_src: "src p = [] \<Longrightarrow> srcEffect p w = (w, False)"
  by (simp add: srcEffect_def)

theorem srcEffect_empty_src_witness:
  "src (propsA\<lparr>src := []\<rparr>) = [] \<and> srcEffect (propsA\<lparr>src := []\<rparr>) worldA = (worldA, False)"
  using srcEffect_empty_src [of "propsA\<lparr>src := []\<rparr>" worldA]
  by simp

section \<open>Properties of the synchronisation of the extra properties\<close>

lemma optionsSync_emitted:
  "backgroundImageRef w = Some img \<Longrightarrow>
   emitted (optionsSync opts) w =
     map (applyOption img) opts @ (if canvas (store w) = None then [] else [RequestRenderAll])"
  by (simp add: optionsSync_def Let_def emitted_def split: option.splits)

lemma applyOption_in_map:
  "(k, v) \<in> set opts \<Longrightarrow>
   (if k = ''angle'' then ImageRotate img v else ImageSet img k v)
     \<in> set (map (applyOption img) opts)"
proof -
  assume "(k, v) \<in> set opts"
  then have "applyOption img (k, v) \<in> applyOption img ` set opts"
    by (rule imageI)
  moreover have "applyOption img (k, v) =
      (if k = ''angle'' then ImageRotate img v else ImageSet img k v)"
    by (simp add: applyOption_def)
  ultimately show ?thesis
    by (simp only: set_map)
qed

lemma update_runs_callback:
  "options p \<noteq> options old \<Longrightarrow>
   update old p w = optionsSync (options p) (runEffects old p w)"
  by (simp add: update_def useDidUpdate_def)

lemma updateViewport_keeps_image:
  "backgroundImageRef (updateViewport ps w) = backgroundImageRef w \<and>
   (canvas (store (updateViewport ps w)) = None) = (canvas (store w) = None)"
  by (simp add: updateViewport_def Let_def split: option.splits)

lemma runEffects_same_src:
  "src p = src old \<Longrightarrow>
   backgroundImageRef (runEffects old p w) = backgroundImageRef w \<and>
   (canvas (store (runEffects old p w)) = None) = (canvas (store w) = None)"
  using updateViewport_keeps_image [of p "w\<lparr>phase := Mounted p\<rparr>"]
  by (simp add: runEffects_def Let_def)

text \<open>
  Claim C7, as the code has it. On every render after the first in which the extra
  properties differ from the previous ones, the callback runs on what that render's
  teardown and effects have left; when \<^verbatim>\<open>src\<close> did not change, that is the same
  image and the same presence of a canvas as before the render. If the component holds an
  image then, every entry of the current extra properties, hence every changed property
  that is still present, is applied to that image in order, \<^verbatim>\<open>angle\<close> by
  \<^verbatim>\<open>rotate\<close> and any other key by \<^verbatim>\<open>set\<close>; a render request follows when
  the store holds a canvas, and nothing else is done. With no image held the callback
  changes nothing.
\<close>

theorem optionsSync_applies:
  "(backgroundImageRef w = Some img \<longrightarrow>
      emitted (optionsSync opts) w =
        map (applyOption img) opts @
        (if canvas (store w) = None then [] else [RequestRenderAll]) \<and>
      (\<forall>k v. (k, v) \<in> set opts \<longrightarrow>
         (if k = ''angle'' then ImageRotate img v else ImageSet img k v)
           \<in> set (emitted (optionsSync opts) w))) \<and>
   (backgroundImageRef w = None \<longrightarrow> optionsSync opts w = w) \<and>
   (phase w = Mounted old \<and> options p \<noteq> options old \<longrightarrow>
      step (Render p) w = optionsSync (options p) (runEffects old p w)) \<and>
   (src p = src old \<longrightarrow>
      backgroundImageRef (runEffects old p w) = backgroundImageRef w \<and>
      (canvas (store (runEffects old p w)) = None) = (canvas (store w) = None))"
proof (intro conjI impI allI)
  assume a: "backgroundImageRef w = Some img"
  show "emitted (optionsSync opts) w =
        map (applyOption img) opts @
        (if canvas (store w) = None then [] else [RequestRenderAll])"
    using a by (rule optionsSync_emitted)
  fix k v
  assume "(k, v) \<in> set opts"
  then show "(if k = ''angle'' then ImageRotate img v else ImageSet img k v)
           \<in> set (emitted (optionsSync opts) w)"
    using applyOption_in_map [of k v opts img] by (simp add: optionsSync_emitted [OF a])
next
  assume "backgroundImageRef w = None"
  then show "optionsSync opts w = w"
    by (simp add: optionsSync_def)
next
  assume "phase w = Mounted old \<and> options p \<noteq> options old"
  then show "step (Render p) w = optionsSync (options p) (runEffects old p w)"
    by (simp add: update_runs_callback)
next
  assume s: "src p = src old"
  show "backgroundImageRef (runEffects old p w) = backgroundImageRef w"
    using runEffects_same_src [OF s] by simp
  show "(canvas (store (runEffects old p w)) = None) = (canvas (store w) = None)"
    using runEffects_same_src [OF s] by simp
qed

theorem optionsSync_applies_witness:
  "backgroundImageRef worldA = Some imageA \<and>
   emitted (optionsSync someOptions) worldA =
     [ImageSet imageA ''opacity'' (JNum (1 / 2)), ImageRotate imageA (JNum 45),
      RequestRenderAll] \<and>
   ImageRotate imageA (JNum 45) \<in> set (emitted (optionsSync someOptions) worldA) \<and>
   backgroundImageRef world0 = None \<and>
   optionsSync someOptions world0 = world0 \<and>
   phase (worldA\<lparr>phase := Mounted propsA\<rparr>) = Mounted propsA \<and>
   options propsOptions \<noteq> options propsA \<and> src propsOptions = src propsA \<and>
   step (Render propsOptions) (worldA\<lparr>phase := Mounted propsA\<rparr>) =
     optionsSync someOptions (runEffects propsA propsOptions (worldA\<lparr>phase := Mounted propsA\<rparr>)) \<and>
   backgroundImageRef (runEffects propsA propsOptions (worldA\<lparr>phase := Mounted propsA\<rparr>)) =
     Some imageA \<and>
   canvas (store (runEffects propsA propsOptions (worldA\<lparr>phase := Mounted propsA\<rparr>))) \<noteq> None"
proof -
  let ?w = "worldA\<lparr>phase := Mounted propsA\<rparr>"
  have a: "backgroundImageRef worldA = Some imageA" "canvas (store worldA) \<noteq> None"
    by (simp_all add: worldA_def)
  have n: "backgroundImageRef world0 = None"
    by (simp add: world0_def)
  have h: "phase ?w = Mounted propsA" "options propsOptions \<noteq> options propsA"
      "src propsOptions = src propsA" "options propsOptions = someOptions"
      "backgroundImageRef ?w = Some imageA" "canvas (store ?w) \<noteq> None"
    by (simp_all add: propsOptions_def propsA_def someOptions_def worldA_def)
  note t1 = optionsSync_applies [of worldA imageA someOptions propsA propsA]
  note t2 = optionsSync_applies [of world0 imageA someOptions propsA propsA]
  note t3 = optionsSync_applies [of ?w imageA someOptions propsA propsOptions]
  have "emitted (optionsSync someOptions) worldA =
        map (applyOption imageA) someOptions @
        (if canvas (store worldA) = None then [] else [RequestRenderAll])"
    using t1 a by blast
  then have c1: "emitted (optionsSync someOptions) worldA =
     [ImageSet imageA ''opacity'' (JNum (1 / 2)), ImageRotate imageA (JNum 45),
      RequestRenderAll]"
    using a by (simp add: someOptions_def applyOption_def)
  have c2: "ImageRotate imageA (JNum 45) \<in> set (emitted (optionsSync someOptions) worldA)"
    by (simp add: c1)
  have c3: "optionsSync someOptions world0 = world0"
    using t2 n by blast
  have "step (Render propsOptions) ?w =
      optionsSync (options propsOptions) (runEffects propsA propsOptions ?w)"
    using t3 h by blast
  then have c4: "step (Render propsOptions) ?w =
      optionsSync someOptions (runEffects propsA propsOptions ?w)"
    by (simp only: h(4))
  have c5: "backgroundImageRef (runEffects propsA propsOptions ?w) = Some imageA"
    using t3 h by metis
  have c6: "canvas (store (runEffects propsA propsOptions ?w)) \<noteq> None"
    using t3 h by metis
  show ?thesis
    using a(1) c1 c2 n c3 h(1,2,3) c4 c5 c6 by blast
qed

text \<open>
  Claim C7 as stated fails in two ways. First, the component holds \<open>imageA\<close> and is
  rendered again with \<open>opacity\<close> removed from its props: the only changed property is
  \<open>opacity\<close>, and nothing is applied for it, the callback going through the entries
  that are left. Second, the component holds \<open>imageA\<close> while the store has no canvas:
  the properties are applied and no render request follows.
\<close>

theorem optionsSync_removed_property_counterexample:
  "phase worldOptions = Mounted propsOptions \<and>
   backgroundImageRef worldOptions = Some imageA \<and>
   options propsOptions = [(''opacity'', JNum (1 / 2)), (''angle'', JNum 45)] \<and>
   options propsAngle = [(''angle'', JNum 45)] \<and>
   emitted (step (Render propsAngle)) worldOptions =
     [ImageRotate imageA (JNum 45), RequestRenderAll] \<and>
   backgroundImageRef worldDetached = Some imageA \<and>
   emitted (optionsSync someOptions) worldDetached =
     [ImageSet imageA ''opacity'' (JNum (1 / 2)), ImageRotate imageA (JNum 45)]"
  by (simp add: worldOptions_def worldDetached_def worldA_def world0_def store0_def
      propsOptions_def propsAngle_def propsA_def someOptions_def emitted_def update_def
      runEffects_def useDidUpdate_def optionsSync_def applyOption_def Let_def)

section \<open>Properties of the life of an instance\<close>





lemma srcCleanup_frame:
  "backgroundImageRef (srcCleanup w) = None \<and> loads (srcCleanup w) = loads w \<and>
   settled (srcCleanup w) = settled w \<and> phase (srcCleanup w) = phase w \<and>
   canvasReady (srcCleanup w) = canvasReady w \<and>
   canvasBackground (srcCleanup w) = canvasBackground w"
  by (simp add: srcCleanup_def Let_def remove_def canvasReady_def canvasBackground_def
      split: option.splits)

lemma srcCleanup_trace_prefix: "\<exists>xs. trace (srcCleanup w) = trace w @ xs"
  by (simp add: srcCleanup_def Let_def split: option.splits)

lemma optionsSync_no_image: "backgroundImageRef w = None \<Longrightarrow> optionsSync opts w = w"
  by (simp add: optionsSync_def)

lemma srcEffect_frame:
  "src p \<noteq> [] \<Longrightarrow>
   backgroundImageRef (fst (srcEffect p w)) = backgroundImageRef w \<and>
   loads (fst (srcEffect p w)) = loads w @ [\<lparr>ld_props = p, ld_domNode = domNode (store w)\<rparr>] \<and>
   settled (fst (srcEffect p w)) = settled w \<and> phase (fst (srcEffect p w)) = phase w \<and>
   canvasReady (fst (srcEffect p w)) = canvasReady w \<and>
   canvasBackground (fst (srcEffect p w)) = canvasBackground w \<and>
   trace (fst (srcEffect p w)) = trace w @ [SetLoading True, FromURL (src p)] \<and>
   snd (srcEffect p w)"
  by (simp add: srcEffect_def Let_def setLoading_def canvasReady_def canvasBackground_def)


lemma update_src_changed:
  assumes "cleanup w" and "src p \<noteq> src old" and "src p \<noteq> []"
  shows "update old p w =
     (fst (srcEffect p ((srcCleanup (w\<lparr>phase := Mounted p\<rparr>))\<lparr>cleanup := False\<rparr>)))\<lparr>cleanup := True\<rparr>"
proof -
  let ?w1 = "(srcCleanup (w\<lparr>phase := Mounted p\<rparr>))\<lparr>cleanup := False\<rparr>"
  have r: "backgroundImageRef ?w1 = None"
    using srcCleanup_frame [of "w\<lparr>phase := Mounted p\<rparr>"] by simp
  have u: "updateViewport p ?w1 = ?w1"
    using r by (rule updateViewport_no_image)
  let ?w3 = "(fst (srcEffect p ?w1))\<lparr>cleanup := snd (srcEffect p ?w1)\<rparr>"
  have r3: "backgroundImageRef ?w3 = None"
    using srcEffect_frame [OF assms(3), of ?w1] r by simp
  have o: "optionsSync (options p) ?w3 = ?w3"
    using r3 by (rule optionsSync_no_image)
  have s: "snd (srcEffect p ?w1)"
    using srcEffect_frame [OF assms(3), of ?w1] by simp
  show ?thesis
    using assms(1,2) u o s by (simp add: update_def runEffects_def useDidUpdate_def Let_def)
qed





lemma step_unmounted_idle:
  assumes "phase w = Unmounted" and "inFlight w = []"
  shows "step e w = w"
proof (cases e)
  case (Settle i r)
  have "i < length (loads w) \<Longrightarrow> i \<in> set (settled w)"
    using assms(2) by (auto simp add: inFlight_def filter_empty_conv)
  then show ?thesis using Settle by auto
qed (simp_all add: assms(1))

lemma run_unmounted_idle:
  "phase w = Unmounted \<Longrightarrow> inFlight w = [] \<Longrightarrow> run es w = w"
  by (induction es) (simp_all add: step_unmounted_idle)

lemma srcCleanup_emitted:
  "emitted srcCleanup w =
     (case backgroundImageRef w of
        None \<Rightarrow> []
      | Some img \<Rightarrow> (case canvas (store w) of None \<Rightarrow> [] | Some c \<Rightarrow> [Remove img])) @
     (case canvas (store w) of
        None \<Rightarrow> []
      | Some c \<Rightarrow> if element c then [RenderAll] else [])"
  by (simp add: srcCleanup_def Let_def remove_def emitted_def split: option.splits)

lemma render_new_src_emitted:
  assumes "phase w = Mounted old" and "cleanup w" and "src p \<noteq> src old" and "src p \<noteq> []"
  shows "emitted (step (Render p)) w = emitted srcCleanup w @ [SetLoading True, FromURL (src p)]"
proof -
  let ?w0 = "w\<lparr>phase := Mounted p\<rparr>"
  obtain xs where xs: "trace (srcCleanup w) = trace w @ xs"
    using srcCleanup_trace_prefix by blast
  have same: "trace (srcCleanup ?w0) = trace (srcCleanup w)"
    by (simp add: srcCleanup_def Let_def split: option.splits)
  have "step (Render p) w =
      (fst (srcEffect p ((srcCleanup ?w0)\<lparr>cleanup := False\<rparr>)))\<lparr>cleanup := True\<rparr>"
    using assms by (simp add: update_src_changed)
  then have "trace (step (Render p) w) =
      trace (srcCleanup w) @ [SetLoading True, FromURL (src p)]"
    using srcEffect_frame [OF assms(4), of "(srcCleanup ?w0)\<lparr>cleanup := False\<rparr>"] same
    by simp
  then show ?thesis
    using xs by (simp add: emitted_def)
qed

text \<open>Evaluating the example runs.\<close>

lemmas run_defs = mount_def update_def runEffects_def useDidUpdate_def unmount_def srcEffect_def srcCleanup_def settle_def
  onResolved_def updateViewport_def optionsSync_def setLoading_def setViewportTransform_def
  remove_def truthy_def findScaleToFit_def findScaleToCover_def fromURL_def Let_def

lemmas example_defs = world0_def store0_def canvas0_def propsA_def propsB_def imageA_def
  imageB_def

lemma worldLoaded_eq:
  "worldLoaded =
     \<lparr>store =
        \<lparr>canvas = Some \<lparr>canvas_width = 800, canvas_height = 600,
             backgroundImage = Some imageA, objects = [],
             viewportTransform = Some [2, 0, 0, 2, 0, 0], element = True,
             imageSmoothingEnabled = True, imageSmoothingQuality = ''high''\<rparr>,
         manualZoom = Some 1, defaultCentered = False, fitZoom = Some 2, zoom = Some 2,
         loading = False, domNode = False\<rparr>,
      backgroundImageRef = Some imageA, phase = Mounted propsA, cleanup = True,
      loads = [loadA], settled = [0],
      trace = [SetLoading True, FromURL ''a.png'',
               ImageSetObject imageA [(''objectCaching'', JBool False)],
               SetViewportTransform [2, 0, 0, 2, 0, 0],
               SetViewportTransform [2, 0, 0, 2, 0, 0], RequestRenderAll,
               SetState 2 1 2, OnLoad imageA, SetLoading False]\<rparr>"
  by (simp add: worldLoaded_def loadA_def run_defs example_defs)

lemma worldStale_eq:
  "worldStale =
     \<lparr>store =
        \<lparr>canvas = Some \<lparr>canvas_width = 800, canvas_height = 600,
             backgroundImage = Some imageA, objects = [],
             viewportTransform = Some [2, 0, 0, 2, 0, 0], element = True,
             imageSmoothingEnabled = True, imageSmoothingQuality = ''high''\<rparr>,
         manualZoom = Some 1, defaultCentered = False, fitZoom = Some 2, zoom = Some 2,
         loading = False, domNode = False\<rparr>,
      backgroundImageRef = Some imageA, phase = Mounted propsB, cleanup = True,
      loads = [loadA, \<lparr>ld_props = propsB, ld_domNode = False\<rparr>], settled = [0],
      trace = [SetLoading True, FromURL ''a.png'', RenderAll, SetLoading True,
               FromURL ''b.png'',
               ImageSetObject imageA [(''objectCaching'', JBool False)],
               SetViewportTransform [2, 0, 0, 2, 0, 0],
               SetViewportTransform [2, 0, 0, 2, 0, 0], RequestRenderAll,
               SetState 2 1 2, OnLoad imageA, SetLoading False]\<rparr>"
  by (simp add: worldStale_def loadA_def run_defs example_defs)



lemma unmount_frame:
  "phase (unmount w) = Unmounted \<and> loads (unmount w) = loads w \<and>
   settled (unmount w) = settled w"
  using srcCleanup_frame [of w] by (simp add: unmount_def)

text \<open>
  Claim C5 fails on the code. The component has rendered with \<open>a.png\<close> and holds its
  image, which line 141 made the background of the canvas by assignment. The teardown,
  whether run by unmounting or by a change of \<^verbatim>\<open>src\<close>, calls \<^verbatim>\<open>remove\<close> on the
  canvas with that image, clears the component's reference and renders; the image was
  never in the collection that \<^verbatim>\<open>remove\<close> works on, and the background slot is not
  reset, so the canvas still holds the image as its background.
\<close>

theorem teardown_keeps_background:
  "backgroundImageRef worldLoaded = Some imageA \<and>
   canvasBackground worldLoaded = Some imageA \<and>
   emitted (step Unmount) worldLoaded = [Remove imageA, RenderAll] \<and>
   backgroundImageRef (step Unmount worldLoaded) = None \<and>
   canvasBackground (step Unmount worldLoaded) = Some imageA \<and>
   emitted (step (Render propsB)) worldLoaded =
     [Remove imageA, RenderAll, SetLoading True, FromURL ''b.png''] \<and>
   backgroundImageRef (step (Render propsB) worldLoaded) = None \<and>
   canvasBackground (step (Render propsB) worldLoaded) = Some imageA"
  by (simp add: worldLoaded_eq)
    (simp add: run_defs example_defs emitted_def canvasBackground_def)

text \<open>
  What the teardown does in general, and its place in a render and in unmounting: it comes
  before the loading flag is set and the new decode request is issued; the background of
  the canvas is what it was; and after an unmount at which no load is in flight nothing
  happens any more.
\<close>

lemma srcCleanup_then_reload:
  "backgroundImageRef (srcCleanup w) = None \<and>
   canvasBackground (srcCleanup w) = canvasBackground w \<and>
   (phase w = Mounted old \<and> cleanup w \<and> src p \<noteq> src old \<and> src p \<noteq> [] \<longrightarrow>
      emitted (step (Render p)) w =
        emitted srcCleanup w @ [SetLoading True, FromURL (src p)]) \<and>
   (phase w = Mounted old \<and> cleanup w \<longrightarrow>
      step Unmount w = (srcCleanup w)\<lparr>phase := Unmounted, cleanup := False\<rparr>) \<and>
   (phase w = Mounted old \<and> inFlight w = [] \<longrightarrow>
      run (Unmount # es) w = step Unmount w)"
proof (intro conjI impI)
  show "backgroundImageRef (srcCleanup w) = None"
    using srcCleanup_frame [of w] by simp
  show "canvasBackground (srcCleanup w) = canvasBackground w"
    using srcCleanup_frame [of w] by simp
next
  assume "phase w = Mounted old \<and> cleanup w \<and> src p \<noteq> src old \<and> src p \<noteq> []"
  then show "emitted (step (Render p)) w =
        emitted srcCleanup w @ [SetLoading True, FromURL (src p)]"
    by (simp add: render_new_src_emitted)
next
  assume "phase w = Mounted old \<and> cleanup w"
  then show "step Unmount w = (srcCleanup w)\<lparr>phase := Unmounted, cleanup := False\<rparr>"
    by (simp add: unmount_def)
next
  assume a: "phase w = Mounted old \<and> inFlight w = []"
  then have u: "step Unmount w = unmount w"
    by simp
  have "phase (unmount w) = Unmounted" "inFlight (unmount w) = []"
    using a unmount_frame [of w] by (simp_all add: inFlight_def)
  then have "run es (unmount w) = unmount w"
    by (rule run_unmounted_idle)
  then show "run (Unmount # es) w = step Unmount w"
    using u by simp
qed

text \<open>
  No load is cancelled: when the component is unmounted while the load of \<open>b.png\<close> is
  in flight, that load's handlers still write the zooms and the loading flag to the store
  and make its image the background of the canvas.
\<close>

lemma unmount_in_flight_store_write:
  "phase worldStale = Mounted propsB \<and>
   backgroundImageRef worldStale = Some imageA \<and>
   phase (step Unmount worldStale) = Unmounted \<and>
   filter isStoreWrite (emitted (step (Settle 1 (Some (100, 100)))) (step Unmount worldStale)) =
     [SetState 6 1 6, SetLoading False] \<and>
   canvasBackground (run [Unmount, Settle 1 (Some (100, 100))] worldStale) = Some imageB"
  by (simp add: worldStale_eq)
    (simp add: run_defs example_defs emitted_def canvasBackground_def)

end
